theory Spec2Isabelle
  imports Complex_Main "HOL-Library.Word" "HOL-Library.Log_Nat"
begin

unbundle bit_operations_syntax

section \<open>Values of the host language\<close>

text \<open>
  finch.js is an ES6 module. The values it handles are bytes of a \<open>Uint8Array\<close>,
  numbers, booleans and \<open>undefined\<close>. Wheel speeds and colour components are modelled
  by \<open>int\<close>. Seconds and hertz are numbers in full (\<open>jsnum\<close> below: the finite doubles
  as the rationals they denote, the infinities and \<open>NaN\<close>), and their product with 1000
  is rounded as IEEE 754 rounds it. The numbers the sensor decoders compute are modelled
  by exact rationals, with \<open>NaN\<close> as a value of its own; there the rounding is not
  modelled.
\<close>

type_synonym byte = "8 word"
type_synonym u8array = "byte list"

text \<open>
  Reading an array beyond its end gives \<open>undefined\<close> (here \<open>None\<close>); it does not raise.
\<close>

definition js_index :: "'a list \<Rightarrow> nat \<Rightarrow> 'a option" where
  "js_index xs i = (if i < length xs then Some (xs ! i) else None)"

text \<open>
  \<open>ToUint8\<close> of an integer-valued number is the number modulo 256; \<open>undefined\<close> converts
  to \<open>NaN\<close> and from there to 0.
\<close>

definition toUint8 :: "int option \<Rightarrow> byte" where
  "toUint8 v = (case v of None \<Rightarrow> 0 | Some n \<Rightarrow> word_of_int n)"

text \<open>A store into a typed array at an index beyond its length is ignored.\<close>

definition u8_store :: "u8array \<Rightarrow> nat \<Rightarrow> byte \<Rightarrow> u8array" where
  "u8_store arr i b = (if i < length arr then arr[i := b] else arr)"

text \<open>
  \<open>cmd.charCodeAt(0)\<close>: the code of the first character, \<open>NaN\<close> (here \<open>None\<close>) for the
  empty string. Command identifiers are modelled as strings of 8-bit characters; every
  identifier the module uses is an ASCII literal.
\<close>

definition charCodeAt0 :: "string \<Rightarrow> int option" where
  "charCodeAt0 cmd = (case cmd of [] \<Rightarrow> None | c # _ \<Rightarrow> Some (of_char c))"

section \<open>The outbound frame\<close>

text \<open>
  The two loops of \<open>send\<close>. The first copies \<open>msg[i]\<close> to \<open>arr[i+1]\<close> for
  \<open>i = 0 .. msg.length\<close> (one index beyond the parameters); the second zeroes \<open>arr[i]\<close>
  from the index where the first loop stopped to the end of the array.
\<close>

function send_copy :: "int list \<Rightarrow> nat \<Rightarrow> u8array \<Rightarrow> nat \<times> u8array" where
  "send_copy msg i arr =
     (if i < length msg + 1
      then send_copy msg (i + 1) (u8_store arr (i + 1) (toUint8 (js_index msg i)))
      else (i, arr))"
  by pat_completeness auto
termination
  by (relation "measure (\<lambda>(msg, i, arr). length msg + 1 - i)") auto

function send_fill :: "nat \<Rightarrow> u8array \<Rightarrow> u8array" where
  "send_fill i arr =
     (if i < length arr then send_fill (i + 1) (u8_store arr i 0) else arr)"
  by pat_completeness auto
termination
  by (relation "measure (\<lambda>(i, arr). length arr - i)") (auto simp: u8_store_def)

text \<open>The array \<open>arr\<close> that \<open>send(cmd, msg)\<close> hands to \<open>sendReport\<close>.\<close>

definition send_arr :: "string \<Rightarrow> int list \<Rightarrow> u8array" where
  "send_arr cmd msg =
     (let arr = replicate 8 0;
          arr = u8_store arr 0 (toUint8 (charCodeAt0 cmd));
          (i, arr) = send_copy msg 0 arr
      in send_fill i arr)"

section \<open>Bit operations and numeric conversions\<close>

text \<open>
  The bitwise operators convert their operands with \<open>ToInt32\<close>: \<open>undefined\<close> becomes 0
  and a number is wrapped into the signed 32-bit range. \<open>>>\<close> shifts the signed value
  arithmetically by the count modulo 32.
\<close>

definition toInt32 :: "int option \<Rightarrow> int" where
  "toInt32 v = (case v of None \<Rightarrow> 0 | Some n \<Rightarrow> signed_take_bit 31 n)"

definition js_band :: "int option \<Rightarrow> int option \<Rightarrow> int" where
  "js_band a b = signed_take_bit 31 (toInt32 a AND toInt32 b)"

definition js_shr :: "int \<Rightarrow> nat \<Rightarrow> int" where
  "js_shr a n = drop_bit (n mod 32) (toInt32 (Some a))"

datatype jsval = JUndefined | JBool bool | JNum rat | JNaN

definition js_trunc :: "rat \<Rightarrow> int" where
  "js_trunc q = (if 0 \<le> q then \<lfloor>q\<rfloor> else \<lceil>q\<rceil>)"

subsection \<open>Numbers as arguments\<close>

text \<open>
  A number passed to \<open>buzz\<close> or \<open>wait\<close> is a double: a finite one is given by the rational
  it denotes (the two zeros are not told apart, nothing here depends on the sign of
  zero), and there are the two infinities and \<open>NaN\<close>.
\<close>

datatype jsnum = Number rat | Infinity | NegInfinity | NaN

text \<open>
  \<open>pow2 e\<close> is the power of two with exponent \<open>e\<close>, and \<open>ilog2 q\<close> for a positive \<open>q\<close> the
  exponent \<open>e\<close> with \<open>pow2 e \<le> q < pow2 (e + 1)\<close>.
\<close>

definition pow2 :: "int \<Rightarrow> rat" where
  "pow2 e = (if 0 \<le> e then 2 ^ nat e else 1 / 2 ^ nat (- e))"

definition ilog2 :: "rat \<Rightarrow> int" where
  "ilog2 q = (if 1 \<le> q then bitlen \<lfloor>q\<rfloor> - 1 else - bitlen (\<lceil>1 / q\<rceil> - 1))"

definition round_half_even :: "rat \<Rightarrow> int" where
  "round_half_even q =
     (let f = \<lfloor>q\<rfloor>; d = q - of_int f
      in if d < 1 / 2 then f else if 1 / 2 < d then f + 1 else if even f then f else f + 1)"

text \<open>
  The double nearest to an exact result, ties to the even significand (IEEE 754
  binary64): 53 significant bits, the spacing of the subnormals below \<open>pow2 (- 1022)\<close>,
  and an infinity when the rounded value \<open>r\<close> reaches \<open>pow2 1024\<close>, that is when its
  exponent is 1024 or more.
\<close>

definition round_double :: "rat \<Rightarrow> jsnum" where
  "round_double q =
     (if q = 0 then Number 0
      else let e = max (ilog2 \<bar>q\<bar>) (- 1022);
               ulp = pow2 (e - 52);
               r = of_int (round_half_even (\<bar>q\<bar> / ulp)) * ulp
           in if r = 0 then Number 0
              else if 1024 \<le> ilog2 r then (if 0 < q then Infinity else NegInfinity)
              else Number (sgn q * r))"

definition js_sign :: "jsnum \<Rightarrow> int" where
  "js_sign a =
     (case a of
        Number q \<Rightarrow> (if q = 0 then 0 else if 0 < q then 1 else - 1)
      | Infinity \<Rightarrow> 1
      | NegInfinity \<Rightarrow> - 1
      | NaN \<Rightarrow> 0)"

text \<open>
  \<open>a * b\<close>: \<open>NaN\<close> when an operand is \<open>NaN\<close> or the product is of zero and an infinity,
  an infinity of the product's sign when an operand is infinite, and the rounded exact
  product otherwise.
\<close>

definition js_mul :: "jsnum \<Rightarrow> jsnum \<Rightarrow> jsnum" where
  "js_mul a b =
     (if a = NaN \<or> b = NaN then NaN
      else case (a, b) of
        (Number p, Number q) \<Rightarrow> round_double (p * q)
      | _ \<Rightarrow> (let s = js_sign a * js_sign b
              in if s = 0 then NaN else if 0 < s then Infinity else NegInfinity))"

text \<open>
  The first step of \<open>ToInt32\<close> on a number: 0 for \<open>NaN\<close> and the infinities, the
  number without its fraction otherwise. \<open>num_operand\<close> makes a number the operand
  of a bitwise operator, which then wraps it into the signed 32-bit range.
\<close>

definition js_integral :: "jsnum \<Rightarrow> int" where
  "js_integral a = (case a of Number q \<Rightarrow> js_trunc q | _ \<Rightarrow> 0)"

definition num_operand :: "jsnum \<Rightarrow> int option" where
  "num_operand a = Some (js_integral a)"

text \<open>
  \<open>a && b\<close> is \<open>a\<close> when \<open>a\<close> is falsy (among numbers: zero and \<open>NaN\<close>) and \<open>b\<close>
  otherwise.
\<close>

definition js_logand :: "jsnum \<Rightarrow> jsnum \<Rightarrow> jsnum" where
  "js_logand a b = (if a = Number 0 \<or> a = NaN then a else b)"

text \<open>
  The delay of a timer. finch.js runs in browsers only (it needs WebHID), where
  \<open>setTimeout\<close> converts its delay to a signed 32-bit integer, as \<open>ToInt32\<close> does, and
  takes a negative delay as 0; the timer fires no earlier than that many milliseconds
  after the call.
\<close>

definition timer_ms :: "jsnum \<Rightarrow> int" where
  "timer_ms d = max 0 (toInt32 (num_operand d))"

text \<open>
  The conversion a typed array applies to a value stored into a \<open>Uint8Array\<close>:
  \<open>ToNumber\<close> (\<open>true\<close> is 1, \<open>false\<close> is 0, \<open>undefined\<close> is \<open>NaN\<close>), then truncation
  towards zero, then reduction modulo 256; \<open>NaN\<close> is stored as 0.
\<close>

definition toUint8_val :: "jsval \<Rightarrow> byte" where
  "toUint8_val v =
     (case v of
        JUndefined \<Rightarrow> 0
      | JBool b \<Rightarrow> (if b then 1 else 0)
      | JNum q \<Rightarrow> word_of_int (js_trunc q)
      | JNaN \<Rightarrow> 0)"

text \<open>
  \<open>data[i]\<close> on a \<open>Uint8Array\<close>: the byte as a number, or \<open>undefined\<close>.
  \<open>data.slice(0, n)\<close> is again a \<open>Uint8Array\<close>, and so is the result of \<open>map\<close> on it:
  \<open>%TypedArray%.prototype.map\<close> creates an array of the same element type and stores
  each result of the callback into it.
\<close>

definition u8_get :: "u8array \<Rightarrow> nat \<Rightarrow> int option" where
  "u8_get data i = map_option uint (js_index data i)"

definition u8_slice :: "u8array \<Rightarrow> nat \<Rightarrow> nat \<Rightarrow> u8array" where
  "u8_slice data start stop = take (stop - start) (drop start data)"

definition u8_map :: "(int \<Rightarrow> jsval) \<Rightarrow> u8array \<Rightarrow> u8array" where
  "u8_map f data = map (\<lambda>b. toUint8_val (f (uint b))) data"

definition u8_num :: "u8array \<Rightarrow> nat \<Rightarrow> jsval" where
  "u8_num data i = (case u8_get data i of None \<Rightarrow> JUndefined | Some n \<Rightarrow> JNum (of_int n))"

section \<open>The device, the page and asynchronous results\<close>

text \<open>
  The host supplies the HID device. Its calls are recorded as events, in order. The page
  state is \<open>window.device\<close>, \<open>window.cmdId\<close>, the devices the user would grant to
  \<open>requestDevice\<close> and the input reports the robot is going to deliver. \<open>run\<close> is assumed
  to be called from a user gesture, so that \<open>requestDevice\<close> resolves (with a possibly
  empty list). \<open>console.log\<close> is not recorded. \<open>now\<close> is the page's clock in
  milliseconds: the earliest time at which the code that is running can have been
  reached. Only awaiting a timer moves it.
\<close>

datatype event =
    RequestDevice
  | OpenDevice
  | SendReport nat u8array
  | AddListener
  | CloseDevice
  | SetTimeout jsnum

datatype exn = TypeError | OpenRejected | JsError string

text \<open>
  An awaited promise is fulfilled, rejected, or never settled (\<open>recv\<close> when no report
  arrives).
\<close>

datatype 'a completion = Returned 'a | Threw exn | Never

record hid_device =
  opened :: bool
  openable :: bool

record world =
  device :: "hid_device option"
  cmdId :: "int option"
  granted :: "hid_device list"
  reports :: "u8array list"
  trace :: "event list"
  now :: int

type_synonym 'a async = "world \<Rightarrow> 'a completion \<times> world"

definition emit :: "event \<Rightarrow> world \<Rightarrow> world" where
  "emit e w = w\<lparr>trace := trace w @ [e]\<rparr>"

text \<open>\<open>await m; f\<close>: the continuation runs only when \<open>m\<close> is fulfilled.\<close>

definition andThen :: "'a async \<Rightarrow> ('a \<Rightarrow> 'b async) \<Rightarrow> 'b async" where
  "andThen m f w =
     (case m w of
        (Returned a, w') \<Rightarrow> f a w'
      | (Threw e, w') \<Rightarrow> (Threw e, w')
      | (Never, w') \<Rightarrow> (Never, w'))"

definition resolve :: "'a \<Rightarrow> 'a async" where
  "resolve a w = (Returned a, w)"

section \<open>Private API\<close>

text \<open>
  \<open>send\<close> builds the frame and calls \<open>window.device.sendReport(0, arr)\<close> without
  awaiting it; the property access throws when \<open>window.device\<close> is \<open>undefined\<close>.
\<close>

definition send :: "string \<Rightarrow> int list \<Rightarrow> unit async" where
  "send cmd msg w =
     (let arr = send_arr cmd msg
      in case device w of
           None \<Rightarrow> (Threw TypeError, w)
         | Some d \<Rightarrow> (Returned (), emit (SendReport 0 arr) w))"

text \<open>
  A call of \<open>send\<close> with more actual arguments than its two formal parameters: the
  surplus arguments are evaluated and bound to nothing.
\<close>

definition send_surplus :: "string \<Rightarrow> int list \<Rightarrow> jsnum list \<Rightarrow> unit async" where
  "send_surplus cmd msg surplus = send cmd msg"

text \<open>
  \<open>recv\<close> registers a one-shot listener and is fulfilled with the next input report.
  Without a device handle the access to \<open>device\<close> throws (a \<open>TypeError\<close> when the handle
  is \<open>undefined\<close>, a \<open>ReferenceError\<close> when the global was never assigned; the model has
  one error for both).
\<close>

definition recv :: "u8array async" where
  "recv w =
     (case device w of
        None \<Rightarrow> (Threw TypeError, w)
      | Some d \<Rightarrow>
          (case reports w of
             [] \<Rightarrow> (Never, emit AddListener w)
           | r # rs \<Rightarrow> (Returned r, (emit AddListener w)\<lparr>reports := rs\<rparr>)))"

section \<open>Public API\<close>

text \<open>
  \<open>wait(sec)\<close> calls \<open>setTimeout(res, sec * 1000)\<close> and returns the promise that the timer
  fulfils; every call in the module and in the documentation's examples is awaited.
  \<open>wait\<close> is the awaited call: the timer is requested, and the code after the \<open>await\<close>
  runs when it has fired. (A call whose promise is dropped would request the timer and
  leave the clock where it is.)
\<close>

definition wait :: "jsnum \<Rightarrow> unit async" where
  "wait sec w =
     (let d = js_mul sec (Number 1000);
          w1 = emit (SetTimeout d) w
      in (Returned (), w1\<lparr>now := now w1 + timer_ms d\<rparr>))"

definition requestDevice :: "world \<Rightarrow> world" where
  "requestDevice w =
     (emit RequestDevice w)\<lparr>device := (case granted w of [] \<Rightarrow> None | d # _ \<Rightarrow> Some d)\<rparr>"

definition device_open :: "unit async" where
  "device_open w =
     (case device w of
        None \<Rightarrow> (Threw TypeError, w)
      | Some d \<Rightarrow>
          if openable d
          then (Returned (), (emit OpenDevice w)\<lparr>device := Some (d\<lparr>opened := True\<rparr>)\<rparr>)
          else (Threw OpenRejected, emit OpenDevice w))"

definition device_close :: "unit async" where
  "device_close w =
     (case device w of
        None \<Rightarrow> (Threw TypeError, w)
      | Some d \<Rightarrow> (Returned (), (emit CloseDevice w)\<lparr>device := Some (d\<lparr>opened := False\<rparr>)\<rparr>))"

text \<open>The first two statements of \<open>run\<close>: get device permissions and connect.\<close>

definition connect :: "unit async" where
  "connect w =
     (let w1 = (if device w = None then requestDevice w else w)
      in case device w1 of
           None \<Rightarrow> (Threw TypeError, w1)
         | Some d \<Rightarrow> if opened d then (Returned (), w1) else device_open w1)"

text \<open>The command ID exchange of \<open>run\<close>.\<close>

definition handshake :: "unit async" where
  "handshake =
     andThen (send ''z'' []) (\<lambda>_.
     andThen recv (\<lambda>data w. (Returned (), w\<lparr>cmdId := u8_get data 0\<rparr>)))"

text \<open>
  \<open>run(prog)\<close> starts an anonymous async function and returns at once; the model gives
  the completion of that function. There is no \<open>try\<close> around \<open>await prog()\<close>.
\<close>

definition run :: "'a async \<Rightarrow> unit async" where
  "run prog =
     andThen connect (\<lambda>_.
     andThen handshake (\<lambda>_.
     andThen prog (\<lambda>_.
     andThen (send ''R'' [0]) (\<lambda>_.
     device_close))))"

definition wheels :: "int \<Rightarrow> int \<Rightarrow> unit async" where
  "wheels left right = send ''M'' [0, left, 0, right]"

definition buzz :: "jsnum \<Rightarrow> jsnum \<Rightarrow> unit async" where
  "buzz sec freq =
     andThen
       (send_surplus ''B''
          [js_shr (js_band (num_operand (js_mul sec (Number 1000))) (Some 0xFF00)) 8,
           js_band (num_operand (js_mul sec (Number 1000))) (Some 0x00FF),
           js_shr (js_band (num_operand freq) (Some 0xFF00)) 8]
          [js_logand freq (Number 0xFF)])
       (\<lambda>_. wait sec)"

definition led :: "int \<Rightarrow> int \<Rightarrow> int \<Rightarrow> unit async" where
  "led r g b = send ''O'' [r, g, b]"

definition halt :: "unit async" where
  "halt = send ''X'' [0]"

text \<open>
  The sensor reads. For each, the value computed from the report \<open>data\<close> is given a
  name of its own (\<open>obstacles_of\<close>, \<open>acceleration_of\<close>, \<open>temperature_of\<close>); the read
  itself sends the query with no parameters, awaits one report and is fulfilled with
  that value.
\<close>

definition obstacles_of :: "u8array \<Rightarrow> u8array" where
  "obstacles_of data = u8_map (\<lambda>x. JBool (x = 1)) (u8_slice data 0 2)"

definition get_obstacles :: "u8array async" where
  "get_obstacles =
     andThen (send ''I'' []) (\<lambda>_.
     andThen recv (\<lambda>data. resolve (obstacles_of data)))"

text \<open>\<open>convAccel\<close> converts a reading to Gs; \<open>accel\<close> is the result of \<open>map\<close>.\<close>

definition convAccel :: "int \<Rightarrow> rat" where
  "convAccel a = (let a = (if a > 31 then a - 64 else a) in of_int a * 1.6 / 32.0)"

record acceleration =
  x :: jsval
  y :: jsval
  z :: jsval
  tap :: bool
  shake :: bool

definition acceleration_of :: "u8array \<Rightarrow> acceleration" where
  "acceleration_of data =
     (let accel = u8_map (\<lambda>a. JNum (convAccel a)) (u8_slice data 0 3)
      in \<lparr>x = u8_num accel 0, y = u8_num accel 1, z = u8_num accel 2,
          tap = (js_band (u8_get data 4) (Some 0x20) \<noteq> 0),
          shake = (js_band (u8_get data 4) (Some 0x80) \<noteq> 0)\<rparr>)"

definition get_acceleration :: "acceleration async" where
  "get_acceleration =
     andThen (send ''A'' []) (\<lambda>_.
     andThen recv (\<lambda>data. resolve (acceleration_of data)))"

text \<open>
  \<open>(data[0] - 127) / 2.4 + 25\<close>: \<open>undefined - 127\<close> is \<open>NaN\<close>, which the division and
  the addition hand on.
\<close>

definition temperature_of :: "u8array \<Rightarrow> jsval" where
  "temperature_of data =
     (case u8_get data 0 of
        None \<Rightarrow> JNaN
      | Some n \<Rightarrow> JNum ((of_int n - 127) / 2.4 + 25))"

definition get_temperature :: "jsval async" where
  "get_temperature =
     andThen (send ''T'' []) (\<lambda>_.
     andThen recv (\<lambda>data. resolve (temperature_of data)))"

definition get_light :: "u8array async" where
  "get_light =
     andThen (send ''L'' []) (\<lambda>_.
     andThen recv (\<lambda>data. resolve (u8_slice data 0 2)))"

section \<open>Example pages\<close>

text \<open>
  A page whose device handle is already open, with no report pending; a page with an
  open handle where the robot is going to deliver the report \<open>r\<close>; and a page that has no
  handle yet, where the user grants one robot that answers the command ID exchange.
\<close>

definition page_open :: world where
  "page_open =
     \<lparr>device = Some \<lparr>opened = True, openable = True\<rparr>, cmdId = None,
      granted = [], reports = [], trace = [], now = 0\<rparr>"

definition page_replies :: "u8array \<Rightarrow> world" where
  "page_replies r =
     \<lparr>device = Some \<lparr>opened = True, openable = True\<rparr>, cmdId = Some 5,
      granted = [], reports = [r], trace = [], now = 0\<rparr>"

definition page_fresh :: world where
  "page_fresh =
     \<lparr>device = None, cmdId = None,
      granted = [\<lparr>opened = False, openable = True\<rparr>],
      reports = [[5, 0, 0, 0, 0, 0, 0, 0]], trace = [], now = 0\<rparr>"

text \<open>
  The page after the entry steps of \<open>run\<close> on the fresh page, and after the task of the
  documentation's example (both wheels at full speed, then one second of waiting).
\<close>

definition page_ready :: world where
  "page_ready =
     \<lparr>device = Some \<lparr>opened = True, openable = True\<rparr>, cmdId = Some 5,
      granted = [\<lparr>opened = False, openable = True\<rparr>], reports = [],
      trace = [RequestDevice, OpenDevice, SendReport 0 [122, 0, 0, 0, 0, 0, 0, 0], AddListener],
      now = 0\<rparr>"

definition page_driven :: world where
  "page_driven =
     \<lparr>device = Some \<lparr>opened = True, openable = True\<rparr>, cmdId = Some 5,
      granted = [\<lparr>opened = False, openable = True\<rparr>], reports = [],
      trace = [RequestDevice, OpenDevice, SendReport 0 [122, 0, 0, 0, 0, 0, 0, 0], AddListener,
               SendReport 0 [77, 0, 255, 0, 255, 0, 0, 0], SetTimeout (Number 1000)],
      now = 1000\<rparr>"

text \<open>
  Two caller-supplied tasks: one that throws, and the example task of the documentation.
\<close>

definition task_throws :: "unit async" where
  "task_throws w = (Threw (JsError ''boom''), w)"

definition task_drive :: "unit async" where
  "task_drive = andThen (wheels 255 255) (\<lambda>_. wait (Number 1))"

section \<open>The two loops of \<open>send\<close>\<close>

declare send_copy.simps [simp del] send_fill.simps [simp del]

lemma length_u8_store [simp]: "length (u8_store arr i b) = length arr"
  by (simp add: u8_store_def)

lemma nth_u8_store: "u8_store arr i b ! k = (if k = i \<and> i < length arr then b else arr ! k)"
  by (simp add: u8_store_def)

lemma send_copy_fst: "fst (send_copy msg i arr) = max i (length msg + 1)"
proof (induction msg i arr rule: send_copy.induct)
  case (1 msg i arr)
  show ?case
  proof (cases "i < length msg + 1")
    case True
    with "1" show ?thesis by (subst send_copy.simps) simp
  next
    case False
    then show ?thesis by (subst send_copy.simps) simp
  qed
qed

lemma send_copy_length: "length (snd (send_copy msg i arr)) = length arr"
proof (induction msg i arr rule: send_copy.induct)
  case (1 msg i arr)
  show ?case
  proof (cases "i < length msg + 1")
    case True
    with "1" show ?thesis by (subst send_copy.simps) simp
  next
    case False
    then show ?thesis by (subst send_copy.simps) simp
  qed
qed

text \<open>
  The first loop overwrites the indices \<open>i+1 .. msg.length+1\<close> that lie inside the array,
  the last of them with the byte of \<open>undefined\<close>.
\<close>

lemma send_copy_nth:
  "snd (send_copy msg i arr) ! k =
     (if i < k \<and> k \<le> length msg + 1 \<and> k < length arr
      then toUint8 (js_index msg (k - 1)) else arr ! k)"
proof (induction msg i arr rule: send_copy.induct)
  case (1 msg i arr)
  show ?case
  proof (cases "i < length msg + 1")
    case True
    with "1" show ?thesis
      by (subst send_copy.simps) (auto simp: nth_u8_store)
  next
    case False
    then show ?thesis by (subst send_copy.simps) auto
  qed
qed

lemma send_fill_length: "length (send_fill i arr) = length arr"
proof (induction i arr rule: send_fill.induct)
  case (1 i arr)
  show ?case
  proof (cases "i < length arr")
    case True
    with "1" show ?thesis by (subst send_fill.simps) simp
  next
    case False
    then show ?thesis by (subst send_fill.simps) simp
  qed
qed

lemma send_fill_nth:
  "send_fill i arr ! k = (if i \<le> k \<and> k < length arr then 0 else arr ! k)"
proof (induction i arr rule: send_fill.induct)
  case (1 i arr)
  show ?case
  proof (cases "i < length arr")
    case True
    with "1" show ?thesis
      by (subst send_fill.simps) (auto simp: nth_u8_store)
  next
    case False
    then show ?thesis by (subst send_fill.simps) auto
  qed
qed

lemma send_arr_length: "length (send_arr cmd msg) = 8"
  by (simp add: send_arr_def Let_def split_beta send_fill_length send_copy_length)

lemma send_arr_nth:
  assumes "k < 8"
  shows "send_arr cmd msg ! k =
     (if k = 0 then toUint8 (charCodeAt0 cmd)
      else if k \<le> length msg then word_of_int (msg ! (k - 1)) else 0)"
  using assms
  by (auto simp: send_arr_def Let_def split_beta send_fill_nth send_copy_nth send_copy_fst
      send_copy_length nth_u8_store toUint8_def js_index_def)

lemma send_arr_eq:
  "send_arr cmd msg = take 8 (toUint8 (charCodeAt0 cmd) # map word_of_int msg @ replicate 7 0)"
proof (rule nth_equalityI)
  show "length (send_arr cmd msg) =
      length (take 8 (toUint8 (charCodeAt0 cmd) # map word_of_int msg @ replicate 7 0))"
    by (simp add: send_arr_length)
next
  fix k assume "k < length (send_arr cmd msg)"
  then have k: "k < 8" by (simp add: send_arr_length)
  then show "send_arr cmd msg ! k =
      take 8 (toUint8 (charCodeAt0 cmd) # map word_of_int msg @ replicate 7 0) ! k"
    by (cases k) (auto simp: send_arr_nth nth_append)
qed

lemma uint_byte_of_int: "uint (word_of_int n :: byte) = n mod 256"
  by (simp add: uint_word_of_int_eq take_bit_eq_mod)

lemma uint_of_char: "uint (of_char c :: byte) = of_char c"
proof -
  have "uint (word_of_int (of_char c) :: byte) = of_char c mod 256"
    by (rule uint_byte_of_int)
  then show ?thesis by (simp add: of_char_mod_256 of_int_of_char)
qed

lemma toUint8_charCode: "toUint8 (charCodeAt0 (c # cs)) = of_char c"
  by (simp add: toUint8_def charCodeAt0_def of_int_of_char)

section \<open>The frame codec\<close>

text \<open>
  C2. For every command identifier and every parameter list of at most seven parameters,
  the array that \<open>send\<close> builds has exactly 8 bytes; byte 0 is the character code of the
  identifier; bytes \<open>1 .. length msg\<close> hold the parameters in order (each as the byte it
  converts to, which is the parameter itself when it lies in \<open>0 .. 255\<close>); every byte from
  index \<open>length msg + 1\<close> to 7 is zero.
\<close>

theorem send_frame_layout:
  assumes "length msg \<le> 7"
  shows "length (send_arr (c # cs) msg) = 8
       \<and> uint (send_arr (c # cs) msg ! 0) = of_char c
       \<and> (\<forall>i < length msg. send_arr (c # cs) msg ! (i + 1) = word_of_int (msg ! i))
       \<and> (\<forall>i < length msg. 0 \<le> msg ! i \<and> msg ! i < 256
             \<longrightarrow> uint (send_arr (c # cs) msg ! (i + 1)) = msg ! i)
       \<and> (\<forall>i. length msg + 1 \<le> i \<and> i < 8 \<longrightarrow> send_arr (c # cs) msg ! i = 0)"
proof (intro conjI allI impI)
  show "length (send_arr (c # cs) msg) = 8"
    by (rule send_arr_length)
  show "uint (send_arr (c # cs) msg ! 0) = of_char c"
    by (simp add: send_arr_nth toUint8_charCode uint_of_char)
next
  fix i assume i: "i < length msg"
  with assms have "i + 1 < 8" by simp
  with i show eq: "send_arr (c # cs) msg ! (i + 1) = word_of_int (msg ! i)"
    by (simp add: send_arr_nth)
  assume "0 \<le> msg ! i \<and> msg ! i < 256"
  with eq show "uint (send_arr (c # cs) msg ! (i + 1)) = msg ! i"
    by (simp add: uint_byte_of_int)
next
  fix i assume "length msg + 1 \<le> i \<and> i < 8"
  then show "send_arr (c # cs) msg ! i = 0"
    by (simp add: send_arr_nth)
qed

theorem send_frame_layout_witness:
  "length [0, 255, 0, 128 :: int] \<le> 7
   \<and> length (send_arr ''M'' [0, 255, 0, 128]) = 8
   \<and> uint (send_arr ''M'' [0, 255, 0, 128] ! 0) = 77
   \<and> uint (send_arr ''M'' [0, 255, 0, 128] ! 2) = 255
   \<and> send_arr ''M'' [0, 255, 0, 128] ! 4 = 128
   \<and> send_arr ''M'' [0, 255, 0, 128] ! 5 = 0"
proof -
  have h: "length [0, 255, 0, 128 :: int] \<le> 7" by simp
  note t = send_frame_layout [OF h, of "CHR ''M''" "[]"]
  from t have b0: "uint (send_arr ''M'' [0, 255, 0, 128] ! 0) = 77" by simp
  from t have "\<forall>i < length [0, 255, 0, 128 :: int].
      0 \<le> [0, 255, 0, 128 :: int] ! i \<and> [0, 255, 0, 128 :: int] ! i < 256
      \<longrightarrow> uint (send_arr ''M'' [0, 255, 0, 128] ! (i + 1)) = [0, 255, 0, 128 :: int] ! i"
    by blast
  from this [rule_format, of 1] have b2: "uint (send_arr ''M'' [0, 255, 0, 128] ! 2) = 255"
    by (simp add: eval_nat_numeral)
  from t have "\<forall>i < length [0, 255, 0, 128 :: int].
      send_arr ''M'' [0, 255, 0, 128] ! (i + 1) = word_of_int ([0, 255, 0, 128 :: int] ! i)"
    by blast
  from this [rule_format, of 3] have b4: "send_arr ''M'' [0, 255, 0, 128] ! 4 = 128"
    by (simp add: eval_nat_numeral)
  from t have "\<forall>i. length [0, 255, 0, 128 :: int] + 1 \<le> i \<and> i < 8
      \<longrightarrow> send_arr ''M'' [0, 255, 0, 128] ! i = 0"
    by blast
  from this [rule_format, of 5] have b5: "send_arr ''M'' [0, 255, 0, 128] ! 5 = 0"
    by simp
  from t have len: "length (send_arr ''M'' [0, 255, 0, 128]) = 8" by blast
  from h len b0 b2 b4 b5 show ?thesis by blast
qed

text \<open>
  C3 as stated fails: a list of eight parameters is not rejected. \<open>send\<close> is fulfilled and
  the frame, cut after the seventh parameter, is passed to \<open>sendReport\<close>.
\<close>

theorem send_long_params_counterexample:
  "length [1, 2, 3, 4, 5, 6, 7, 8 :: int] > 7
   \<and> send ''M'' [1, 2, 3, 4, 5, 6, 7, 8] page_open =
       (Returned (), page_open\<lparr>trace := [SendReport 0 [77, 1, 2, 3, 4, 5, 6, 7]]\<rparr>)"
  by (simp add: send_def send_arr_eq toUint8_charCode page_open_def emit_def)

text \<open>
  C3, amended. For every parameter list of more than seven parameters \<open>send\<close> raises no
  error: with a device handle in place it is fulfilled, and the frame it passes to
  \<open>sendReport\<close> is the identifier byte followed by the first seven parameters, each
  reduced modulo 256; the remaining parameters are dropped silently.
\<close>

theorem send_long_params_truncated:
  assumes "length msg > 7" and "device w = Some d"
  shows "send (c # cs) msg w =
           (Returned (), emit (SendReport 0 (of_char c # map word_of_int (take 7 msg))) w)"
  using assms
  by (simp add: send_def send_arr_eq toUint8_charCode take_map)

theorem send_long_params_truncated_witness:
  "length [1, 2, 3, 4, 5, 6, 7, 8, 9 :: int] > 7
   \<and> device page_open = Some \<lparr>opened = True, openable = True\<rparr>
   \<and> send ''O'' [1, 2, 3, 4, 5, 6, 7, 8, 9] page_open =
       (Returned (), emit (SendReport 0 [79, 1, 2, 3, 4, 5, 6, 7]) page_open)"
proof -
  have h1: "length [1, 2, 3, 4, 5, 6, 7, 8, 9 :: int] > 7" by simp
  have h2: "device page_open = Some \<lparr>opened = True, openable = True\<rparr>"
    by (simp add: page_open_def)
  from send_long_params_truncated [OF h1 h2, of "CHR ''O''" "[]"] h1 h2
  show ?thesis by simp
qed

section \<open>The buzzer command\<close>

text \<open>
  The masks and the shift of \<open>buzz\<close> select bits 8 to 15 and bits 0 to 7 of a number,
  whatever its size or sign.
\<close>

lemma c_FF00: "(0xFF00::int) = push_bit 8 (mask 8)"
  by (simp add: mask_eq_exp_minus_1)

lemma c_FF: "(0xFF::int) = mask 8"
  by (simp add: mask_eq_exp_minus_1)

lemma js_hi_byte:
  "js_shr (js_band (Some n) (Some 0xFF00)) 8 = n div 256 mod 256"
proof -
  have "js_shr (js_band (Some n) (Some 0xFF00)) 8 = take_bit 8 (drop_bit 8 n)"
    unfolding js_shr_def js_band_def toInt32_def option.case c_FF00
    by (rule bit_eqI) (auto simp: bit_simps)
  then show ?thesis
    by (simp add: take_bit_eq_mod drop_bit_eq_div)
qed

lemma js_lo_byte:
  "js_band (Some n) (Some 0x00FF) = n mod 256"
proof -
  have "js_band (Some n) (Some 0x00FF) = take_bit 8 n"
    unfolding js_band_def toInt32_def option.case c_FF
    by (rule bit_eqI) (auto simp: bit_simps)
  then show ?thesis
    by (simp add: take_bit_eq_mod)
qed

lemma byte_of_mod: "(word_of_int (n mod 256) :: byte) = word_of_int n"
  by (simp add: word_of_int_eq_iff take_bit_eq_mod)

lemma send_B: "send_arr ''B'' [a, b, c] = [66, word_of_int a, word_of_int b, word_of_int c, 0, 0, 0, 0]"
  by (simp add: send_arr_eq toUint8_charCode eval_nat_numeral)

lemma buzz_eq:
  assumes "device w = Some d"
  shows "buzz sec freq w =
    (Returned (),
     w\<lparr>trace := trace w @
        [SendReport 0
           [66, word_of_int (js_integral (js_mul sec (Number 1000)) div 256),
            word_of_int (js_integral (js_mul sec (Number 1000))),
            word_of_int (js_integral freq div 256), 0, 0, 0, 0],
         SetTimeout (js_mul sec (Number 1000))],
       now := now w + timer_ms (js_mul sec (Number 1000))\<rparr>)"
  using assms
  by (simp add: buzz_def andThen_def send_surplus_def send_def wait_def emit_def Let_def
      num_operand_def send_B js_hi_byte js_lo_byte byte_of_mod)

lemma big_endian_16: "256 * ((ms::int) div 256 mod 256) + ms mod 256 = ms mod 65536"
proof -
  have "ms mod 65536 = ms mod (256 * 256)" by simp
  also have "\<dots> = 256 * (ms div 256 mod 256) + ms mod 256"
    by (rule zmod_zmult2_eq) simp
  finally show ?thesis by simp
qed

text \<open>
  A timer whose delay is a whole number of milliseconds below \<open>2 ^ 31\<close> runs for that
  delay.
\<close>

lemma timer_ms_small:
  assumes "0 \<le> js_integral d" and "js_integral d < 2 ^ 31"
  shows "timer_ms d = js_integral d"
proof -
  from assms have "signed_take_bit 31 (js_integral d) = js_integral d"
    by (intro signed_take_bit_int_eq_self) simp_all
  with assms(1) show ?thesis
    by (simp add: timer_ms_def toInt32_def num_operand_def)
qed

text \<open>
  The product of two whole numbers is exact as long as it stays below \<open>2 ^ 53\<close>.
\<close>

lemma round_half_even_of_int: "round_half_even (of_int k) = k"
  by (simp add: round_half_even_def)

lemma pow2_small: "0 \<le> e \<Longrightarrow> e \<le> 52 \<Longrightarrow> pow2 (e - 52) = 1 / 2 ^ nat (52 - e)"
  by (cases "e = 52") (simp_all add: pow2_def)

lemma round_double_pos_int:
  assumes "0 < n" and "n < 2 ^ 53"
  shows "round_double (of_int n) = Number (of_int n)"
proof -
  let ?e = "bitlen n - 1"
  from assms(1) have e0: "0 \<le> ?e"
    using bitlen_eq_zero_iff [of n] bitlen_nonneg [of n] by linarith
  from assms(2) have "bitlen n \<le> 53"
    by (simp add: bitlen_le_iff_power)
  then have e52: "?e \<le> 52" by simp
  from assms(1) have q1: "(1::rat) \<le> of_int n" by simp
  have il: "ilog2 \<bar>(of_int n :: rat)\<bar> = ?e"
    using assms(1) q1 by (simp add: ilog2_def)
  have mx: "max ?e (- 1022) = ?e" using e0 by simp
  have ulp: "pow2 (?e - 52) = 1 / 2 ^ nat (52 - ?e)"
    by (rule pow2_small [OF e0 e52])
  have quot: "\<bar>(of_int n :: rat)\<bar> / (1 / 2 ^ nat (52 - ?e)) = of_int (n * 2 ^ nat (52 - ?e))"
    using assms(1) by simp
  have prod: "(of_int (n * 2 ^ nat (52 - ?e)) :: rat) * (1 / 2 ^ nat (52 - ?e)) = of_int n"
    by simp
  have il': "ilog2 (of_int n :: rat) = ?e"
    using assms(1) q1 by (simp add: ilog2_def)
  have small: "\<not> 1024 \<le> ilog2 (of_int n :: rat)"
    unfolding il' using e52 by simp
  have nz: "(of_int n :: rat) \<noteq> 0" using assms(1) by simp
  have sg: "sgn (of_int n :: rat) = 1" using assms(1) by simp
  show ?thesis
    unfolding round_double_def Let_def il mx ulp quot round_half_even_of_int prod
    using nz small sg by simp
qed

lemma js_mul_whole:
  assumes "0 \<le> n" and "n * k < 2 ^ 53" and "0 \<le> k"
  shows "js_mul (Number (of_int n)) (Number (of_int k)) = Number (of_int (n * k))"
proof (cases "n * k = 0")
  case True
  then show ?thesis by (auto simp: js_mul_def round_double_def)
next
  case False
  with assms have "0 < n * k" by (simp add: zero_less_mult_iff less_le)
  from round_double_pos_int [OF this assms(2)] show ?thesis
    by (simp add: js_mul_def)
qed

lemma js_integral_whole: "js_integral (Number (of_int n)) = n"
  by (simp add: js_integral_def js_trunc_def)

text \<open>
  The rounding at work: for 0.009 seconds (the double nearest to 0.009) the exact
  product is just below 9 and the rounded product is 9, so the frame carries 9
  milliseconds; for 72057594037929 seconds the exact product ends in the byte 40, the
  rounded one in the byte 32.
\<close>

lemma js_mul_rounds:
  "js_integral (js_mul (Number (5188146770730811 / 2 ^ 59)) (Number 1000)) = 9
   \<and> js_trunc (5188146770730811 / 2 ^ 59 * 1000) = 8
   \<and> js_mul (Number 72057594037929) (Number 1000) = Number 72057594037928992
   \<and> (72057594037928992 :: int) mod 256 = 32
   \<and> (72057594037929 * 1000 :: int) mod 256 = 40"
  by code_simp

text \<open>
  C4 as stated fails: for 66 seconds the first two parameter bytes are 1 and 208, the
  big-endian 16-bit value 464 and not the 66000 milliseconds of \<open>sec * 1000\<close>, while the
  timer is requested for 66000 milliseconds.
\<close>

theorem buzz_66_seconds_counterexample:
  "buzz (Number 66) (Number 440) page_open =
     (Returned (),
      page_open\<lparr>trace := [SendReport 0 [66, 1, 208, 1, 0, 0, 0, 0], SetTimeout (Number 66000)],
        now := 66000\<rparr>)
   \<and> 256 * uint (1 :: byte) + uint (208 :: byte) = (464 :: int)
   \<and> js_mul (Number 66) (Number 1000) = Number 66000"
  by code_simp

text \<open>
  C4, amended. For all numbers \<open>sec\<close> and \<open>freq\<close> (so for the non-negative ones), with a
  device handle in place, \<open>buzz(sec, freq)\<close> passes one frame to \<open>sendReport\<close>, then
  requests a timer with the delay \<open>sec * 1000\<close>, and is fulfilled when that timer has
  fired. Let \<open>m\<close> be the whole milliseconds of the product \<open>sec * 1000\<close> as the program
  computes it. The frame starts with the code of \<open>B\<close>; its first two parameter bytes
  are bits 8 to 15 and bits 0 to 7 of \<open>m\<close>, which together are \<open>m\<close> modulo 65536 in
  big-endian order, and \<open>m\<close> itself exactly when \<open>0 \<le> m < 65536\<close>; its third parameter
  byte is bits 8 to 15 of \<open>freq\<close>. The caller is suspended for the delay of the timer,
  which is \<open>m\<close> milliseconds when \<open>0 \<le> m < 2 ^ 31\<close>. For a whole number of seconds \<open>n\<close>
  with \<open>n * 1000 < 2 ^ 53\<close> the product is exact and \<open>m = n * 1000\<close>.
\<close>

theorem buzz_frame_and_timer:
  assumes "device w = Some d"
  shows "\<exists>b1 b2 b3.
      buzz sec freq w =
        (Returned (),
         w\<lparr>trace := trace w @
            [SendReport 0 [66, b1, b2, b3, 0, 0, 0, 0], SetTimeout (js_mul sec (Number 1000))],
           now := now w + timer_ms (js_mul sec (Number 1000))\<rparr>)
      \<and> uint b1 = js_integral (js_mul sec (Number 1000)) div 256 mod 256
      \<and> uint b2 = js_integral (js_mul sec (Number 1000)) mod 256
      \<and> uint b3 = js_integral freq div 256 mod 256
      \<and> 256 * uint b1 + uint b2 = js_integral (js_mul sec (Number 1000)) mod 65536
      \<and> (0 \<le> js_integral (js_mul sec (Number 1000))
            \<and> js_integral (js_mul sec (Number 1000)) < 65536
          \<longleftrightarrow> 256 * uint b1 + uint b2 = js_integral (js_mul sec (Number 1000)))
      \<and> (0 \<le> js_integral (js_mul sec (Number 1000))
            \<and> js_integral (js_mul sec (Number 1000)) < 2 ^ 31
          \<longrightarrow> timer_ms (js_mul sec (Number 1000)) = js_integral (js_mul sec (Number 1000)))
      \<and> (\<forall>n. sec = Number (of_int n) \<and> 0 \<le> n \<and> n * 1000 < 2 ^ 53
          \<longrightarrow> js_mul sec (Number 1000) = Number (of_int (n * 1000))
              \<and> js_integral (js_mul sec (Number 1000)) = n * 1000)"
proof -
  let ?ms = "js_integral (js_mul sec (Number 1000))"
  have exact: "256 * (?ms div 256 mod 256) + ?ms mod 256 = ?ms \<longleftrightarrow> 0 \<le> ?ms \<and> ?ms < 65536"
    unfolding big_endian_16 by (auto simp: mod_pos_pos_trivial intro: mod_less_divisor
        dest: sym)
  show ?thesis
  proof (intro exI conjI impI allI)
    show "buzz sec freq w =
        (Returned (),
         w\<lparr>trace := trace w @
            [SendReport 0 [66, word_of_int (?ms div 256), word_of_int ?ms,
               word_of_int (js_integral freq div 256), 0, 0, 0, 0],
             SetTimeout (js_mul sec (Number 1000))],
           now := now w + timer_ms (js_mul sec (Number 1000))\<rparr>)"
      by (rule buzz_eq [OF assms])
    show "uint (word_of_int (?ms div 256) :: byte) = ?ms div 256 mod 256"
      by (rule uint_byte_of_int)
    show "uint (word_of_int ?ms :: byte) = ?ms mod 256"
      by (rule uint_byte_of_int)
    show "uint (word_of_int (js_integral freq div 256) :: byte) = js_integral freq div 256 mod 256"
      by (rule uint_byte_of_int)
    show "256 * uint (word_of_int (?ms div 256) :: byte) + uint (word_of_int ?ms :: byte)
        = ?ms mod 65536"
      by (simp only: uint_byte_of_int big_endian_16)
    show "(0 \<le> ?ms \<and> ?ms < 65536)
        = (256 * uint (word_of_int (?ms div 256) :: byte) + uint (word_of_int ?ms :: byte) = ?ms)"
      by (simp only: uint_byte_of_int exact)
  next
    assume "0 \<le> ?ms \<and> ?ms < 2 ^ 31"
    then show "timer_ms (js_mul sec (Number 1000)) = ?ms"
      by (simp add: timer_ms_small)
  next
    fix n :: int
    assume a: "sec = Number (of_int n) \<and> 0 \<le> n \<and> n * 1000 < 2 ^ 53"
    then have "js_mul (Number (of_int n)) (Number (of_int 1000)) = Number (of_int (n * 1000))"
      by (intro js_mul_whole) simp_all
    with a show p: "js_mul sec (Number 1000) = Number (of_int (n * 1000))" by simp
    show "?ms = n * 1000"
      unfolding p by (rule js_integral_whole)
  qed
qed

theorem buzz_frame_and_timer_witness:
  "device page_open = Some \<lparr>opened = True, openable = True\<rparr>
   \<and> (0 :: int) \<le> 1 \<and> (1 :: int) * 1000 < 2 ^ 53
   \<and> js_mul (Number 1) (Number 1000) = Number 1000
   \<and> buzz (Number 1) (Number 440) page_open =
       (Returned (),
        page_open\<lparr>trace := [SendReport 0 [66, 3, 232, 1, 0, 0, 0, 0], SetTimeout (Number 1000)],
          now := 1000\<rparr>)"
proof -
  have h: "device page_open = Some \<lparr>opened = True, openable = True\<rparr>"
    by (simp add: page_open_def)
  from buzz_frame_and_timer [OF h, of "Number 1" "Number 440"]
  obtain b1 b2 b3 :: byte where
    r: "buzz (Number 1) (Number 440) page_open =
        (Returned (),
         page_open\<lparr>trace := trace page_open @
            [SendReport 0 [66, b1, b2, b3, 0, 0, 0, 0],
             SetTimeout (js_mul (Number 1) (Number 1000))],
           now := now page_open + timer_ms (js_mul (Number 1) (Number 1000))\<rparr>)"
    and u: "uint b1 = js_integral (js_mul (Number 1) (Number 1000)) div 256 mod 256"
      "uint b2 = js_integral (js_mul (Number 1) (Number 1000)) mod 256"
      "uint b3 = js_integral (Number 440) div 256 mod 256"
    and t: "0 \<le> js_integral (js_mul (Number 1) (Number 1000))
            \<and> js_integral (js_mul (Number 1) (Number 1000)) < 2 ^ 31
          \<longrightarrow> timer_ms (js_mul (Number 1) (Number 1000))
              = js_integral (js_mul (Number 1) (Number 1000))"
    and e: "\<forall>n. Number 1 = Number (of_int n) \<and> 0 \<le> n \<and> n * 1000 < 2 ^ 53
          \<longrightarrow> js_mul (Number 1) (Number 1000) = Number (of_int (n * 1000))
              \<and> js_integral (js_mul (Number 1) (Number 1000)) = n * 1000"
    by blast
  have p: "Number 1 = Number (of_int 1) \<and> (0 :: int) \<le> 1 \<and> (1 :: int) * 1000 < 2 ^ 53"
    by simp
  note mi = e [rule_format, of 1, OF p]
  from mi [THEN conjunct1] have m: "js_mul (Number 1) (Number 1000) = Number 1000"
    by simp
  from mi [THEN conjunct2] have i: "js_integral (js_mul (Number 1) (Number 1000)) = 1000"
    by simp
  from t i have tm: "timer_ms (js_mul (Number 1) (Number 1000)) = 1000" by simp
  have f: "js_integral (Number 440) = 440"
    using js_integral_whole [of 440] by simp
  from u i f have "uint b1 = uint (3 :: byte)" "uint b2 = uint (232 :: byte)"
      "uint b3 = uint (1 :: byte)"
    by simp_all
  then have "b1 = 3" "b2 = 232" "b3 = 1"
    by (simp_all only: word_uint_eq_iff [symmetric])
  with r m tm have "buzz (Number 1) (Number 440) page_open =
       (Returned (),
        page_open\<lparr>trace := [SendReport 0 [66, 3, 232, 1, 0, 0, 0, 0], SetTimeout (Number 1000)],
          now := 1000\<rparr>)"
    by (simp add: page_open_def)
  with h m show ?thesis by simp
qed

text \<open>
  Half a second is 500 milliseconds in the frame and on the clock; a timer of
  2147484000 milliseconds exceeds the 32-bit delay and does not hold the caller at all.
\<close>

lemma buzz_fraction_and_overflow:
  "buzz (Number 0.5) (Number 440) page_open =
     (Returned (),
      page_open\<lparr>trace := [SendReport 0 [66, 1, 244, 1, 0, 0, 0, 0], SetTimeout (Number 500)],
        now := 500\<rparr>)
   \<and> now (snd (buzz (Number 2147484) (Number 440) page_open)) = 0"
  by code_simp



section \<open>The session\<close>

lemma andThen_assoc: "andThen (andThen m f) g = andThen m (\<lambda>a. andThen (f a) g)"
  by (rule ext) (simp add: andThen_def split: prod.splits completion.splits)

lemma andThen_Returned: "m w = (Returned a, w') \<Longrightarrow> andThen m f w = f a w'"
  by (simp add: andThen_def)

lemma andThen_Threw: "m w = (Threw e, w') \<Longrightarrow> andThen m f w = (Threw e, w')"
  by (simp add: andThen_def)

lemma andThen_Never: "m w = (Never, w') \<Longrightarrow> andThen m f w = (Never, w')"
  by (simp add: andThen_def)

lemma run_split:
  "run prog =
     andThen (andThen connect (\<lambda>_. handshake)) (\<lambda>_.
     andThen prog (\<lambda>_. andThen (send ''R'' [0]) (\<lambda>_. device_close)))"
  by (simp add: run_def andThen_assoc)

lemma send_R: "send_arr ''R'' [0] = [82, 0, 0, 0, 0, 0, 0, 0]"
  by (simp add: send_arr_eq toUint8_charCode eval_nat_numeral)

lemma send_z: "send_arr ''z'' [] = [122, 0, 0, 0, 0, 0, 0, 0]"
  by (simp add: send_arr_eq toUint8_charCode eval_nat_numeral)

lemma teardown_eq:
  assumes "device w = Some d"
  shows "andThen (send ''R'' [0]) (\<lambda>_. device_close) w =
     (Returned (),
      w\<lparr>device := Some (d\<lparr>opened := False\<rparr>),
        trace := trace w @ [SendReport 0 [82, 0, 0, 0, 0, 0, 0, 0], CloseDevice]\<rparr>)"
  using assms
  by (simp add: andThen_def send_def device_close_def emit_def send_R)

lemma connect_trace:
  "trace (snd (connect w)) =
     trace w @ (if device w = None then [RequestDevice] else [])
       @ (case (if device w = None then (case granted w of [] \<Rightarrow> None | g # _ \<Rightarrow> Some g)
                else device w) of
            None \<Rightarrow> []
          | Some d \<Rightarrow> if opened d then [] else [OpenDevice])"
  by (auto simp: connect_def requestDevice_def device_open_def emit_def Let_def
      split: option.splits list.splits)

lemma handshake_trace:
  "\<exists>evs. trace (snd (handshake w)) = trace w @ evs
        \<and> set evs \<subseteq> {SendReport 0 [122, 0, 0, 0, 0, 0, 0, 0], AddListener}"
  by (auto simp: handshake_def andThen_def send_def recv_def emit_def send_z
      split: option.splits list.splits)

lemma entry_trace:
  "\<exists>evs. trace (snd (andThen connect (\<lambda>_. handshake) w)) = trace w @ evs
        \<and> set evs \<subseteq> {RequestDevice, OpenDevice, SendReport 0 [122, 0, 0, 0, 0, 0, 0, 0], AddListener}"
proof (cases "connect w")
  case (Pair c w1)
  from connect_trace [of w] Pair obtain e1 where
    e1: "trace w1 = trace w @ e1" "set e1 \<subseteq> {RequestDevice, OpenDevice}"
    by (auto split: option.splits list.splits if_splits)
  show ?thesis
  proof (cases c)
    case (Returned u)
    from handshake_trace [of w1] obtain e2 where
      e2: "trace (snd (handshake w1)) = trace w1 @ e2"
        "set e2 \<subseteq> {SendReport 0 [122, 0, 0, 0, 0, 0, 0, 0], AddListener}"
      by blast
    from Pair Returned have "andThen connect (\<lambda>_. handshake) w = handshake w1"
      by (simp add: andThen_def)
    with e1 e2 show ?thesis
      by (intro exI [of _ "e1 @ e2"]) auto
  next
    case (Threw e)
    with Pair have "andThen connect (\<lambda>_. handshake) w = (Threw e, w1)"
      by (simp add: andThen_def)
    with e1 show ?thesis by (intro exI [of _ e1]) auto
  next
    case Never
    with Pair have "andThen connect (\<lambda>_. handshake) w = (Never, w1)"
      by (simp add: andThen_def)
    with e1 show ?thesis by (intro exI [of _ e1]) auto
  qed
qed

lemma count_list_absent: "x \<notin> set evs \<Longrightarrow> count_list (xs @ evs) x = count_list xs x"
  by (simp add: count_list_0_iff)

lemma run_after_entry:
  assumes "andThen connect (\<lambda>_. handshake) w0 = (Returned u, w1)"
  shows "run prog w0 =
           andThen prog (\<lambda>_. andThen (send ''R'' [0]) (\<lambda>_. device_close)) w1"
  unfolding run_split by (subst andThen_def) (simp add: assms)

lemma run_reuse:
  assumes "device w = Some d" and "opened d"
  shows "connect w = (Returned (), w)"
    and "run prog w =
           andThen handshake (\<lambda>_.
           andThen prog (\<lambda>_. andThen (send ''R'' [0]) (\<lambda>_. device_close))) w"
proof -
  from assms show c: "connect w = (Returned (), w)"
    by (simp add: connect_def)
  show "run prog w =
           andThen handshake (\<lambda>_.
           andThen prog (\<lambda>_. andThen (send ''R'' [0]) (\<lambda>_. device_close))) w"
    unfolding run_def by (subst andThen_def) (simp add: c)
qed

text \<open>
  C1. The code at a task that throws, on a page where the user grants a robot: \<open>run\<close>
  connects, exchanges the command ID and stops at \<open>await prog()\<close> with the task's error.
  The session teardown that the claim and the doc comment of \<open>run\<close> promise is not
  performed: the idle command \<open>R\<close> is not sent, \<open>close()\<close> is not called, and the device
  handle stays open.
\<close>

theorem run_throwing_task_skips_teardown:
  "fst (run task_throws page_fresh) = Threw (JsError ''boom'')
   \<and> device (snd (run task_throws page_fresh)) = Some \<lparr>opened = True, openable = True\<rparr>
   \<and> trace (snd (run task_throws page_fresh)) =
       [RequestDevice, OpenDevice, SendReport 0 [122, 0, 0, 0, 0, 0, 0, 0], AddListener]
   \<and> count_list (trace (snd (run task_throws page_fresh)))
         (SendReport 0 [82, 0, 0, 0, 0, 0, 0, 0]) = 0
   \<and> count_list (trace (snd (run task_throws page_fresh))) CloseDevice = 0"
  by code_simp

text \<open>
  The two paths of \<open>run\<close> after its entry steps. When the task completes normally,
  leaving the page its device handle, the remaining actions of \<open>run\<close> are exactly one
  \<open>sendReport\<close> of the idle frame (\<open>R\<close> with a single zero parameter byte) followed by
  exactly one \<open>close()\<close>, which leaves the handle closed; connecting and the exchange
  themselves issue neither. When the task throws, \<open>run\<close> ends with the state and the
  trace the task left, and with its error: the defect that the theorem above shows at
  one task holds for every task that throws.
\<close>

lemma run_teardown:
  assumes entry: "andThen connect (\<lambda>_. handshake) w0 = (Returned (), w1)"
  shows "(\<forall>a w2 d. prog w1 = (Returned a, w2) \<and> device w2 = Some d \<longrightarrow>
            run prog w0 =
              (Returned (),
               w2\<lparr>device := Some (d\<lparr>opened := False\<rparr>),
                  trace := trace w2 @ [SendReport 0 [82, 0, 0, 0, 0, 0, 0, 0], CloseDevice]\<rparr>))
       \<and> (\<forall>e w2. prog w1 = (Threw e, w2) \<longrightarrow> run prog w0 = (Threw e, w2))
       \<and> count_list (trace w1) (SendReport 0 [82, 0, 0, 0, 0, 0, 0, 0]) =
           count_list (trace w0) (SendReport 0 [82, 0, 0, 0, 0, 0, 0, 0])
       \<and> count_list (trace w1) CloseDevice = count_list (trace w0) CloseDevice"
proof (intro conjI allI impI)
  fix a w2 d assume "prog w1 = (Returned a, w2) \<and> device w2 = Some d"
  then have p: "prog w1 = (Returned a, w2)" and d: "device w2 = Some d" by simp_all
  have "run prog w0 = andThen (send ''R'' [0]) (\<lambda>_. device_close) w2"
    unfolding run_after_entry [OF entry] by (subst andThen_def) (simp add: p)
  then show "run prog w0 =
              (Returned (),
               w2\<lparr>device := Some (d\<lparr>opened := False\<rparr>),
                  trace := trace w2 @ [SendReport 0 [82, 0, 0, 0, 0, 0, 0, 0], CloseDevice]\<rparr>)"
    by (simp only: teardown_eq [OF d])
next
  fix e w2 assume p: "prog w1 = (Threw e, w2)"
  show "run prog w0 = (Threw e, w2)"
    unfolding run_after_entry [OF entry] by (subst andThen_def) (simp add: p)
next
  from entry_trace [of w0] entry obtain evs where
    evs: "trace w1 = trace w0 @ evs"
      "set evs \<subseteq> {RequestDevice, OpenDevice, SendReport 0 [122, 0, 0, 0, 0, 0, 0, 0], AddListener}"
    by auto
  from evs(2) have "SendReport 0 [82, 0, 0, 0, 0, 0, 0, 0] \<notin> set evs" by auto
  with evs(1) show "count_list (trace w1) (SendReport 0 [82, 0, 0, 0, 0, 0, 0, 0]) =
           count_list (trace w0) (SendReport 0 [82, 0, 0, 0, 0, 0, 0, 0])"
    by (simp add: count_list_absent)
  from evs(2) have "CloseDevice \<notin> set evs" by auto
  with evs(1) show "count_list (trace w1) CloseDevice = count_list (trace w0) CloseDevice"
    by (simp add: count_list_absent)
qed

lemma run_teardown_example:
  "andThen connect (\<lambda>_. handshake) page_fresh = (Returned (), page_ready)
   \<and> task_drive page_ready = (Returned (), page_driven)
   \<and> device page_driven = Some \<lparr>opened = True, openable = True\<rparr>
   \<and> run task_drive page_fresh =
       (Returned (),
        page_driven\<lparr>device := Some \<lparr>opened = False, openable = True\<rparr>,
          trace := trace page_driven @ [SendReport 0 [82, 0, 0, 0, 0, 0, 0, 0], CloseDevice]\<rparr>)
   \<and> task_throws page_ready = (Threw (JsError ''boom''), page_ready)
   \<and> run task_throws page_fresh = (Threw (JsError ''boom''), page_ready)"
proof -
  have h: "andThen connect (\<lambda>_. handshake) page_fresh = (Returned (), page_ready)"
    by code_simp
  have d: "task_drive page_ready = (Returned (), page_driven)"
    by code_simp
  have dev: "device page_driven = Some \<lparr>opened = True, openable = True\<rparr>"
    by (simp add: page_driven_def)
  have t: "task_throws page_ready = (Threw (JsError ''boom''), page_ready)"
    by (simp add: task_throws_def)
  from run_teardown [OF h, of task_drive] d dev
  have r1: "run task_drive page_fresh =
       (Returned (),
        page_driven\<lparr>device := Some \<lparr>opened = False, openable = True\<rparr>,
          trace := trace page_driven @ [SendReport 0 [82, 0, 0, 0, 0, 0, 0, 0], CloseDevice]\<rparr>)"
    by simp
  from run_teardown [OF h, of task_throws] t
  have r2: "run task_throws page_fresh = (Threw (JsError ''boom''), page_ready)"
    by blast
  from h d dev t r1 r2 show ?thesis by blast
qed

text \<open>
  C10. On entry, \<open>run\<close> calls \<open>requestDevice\<close> exactly when the page has no device handle,
  and calls \<open>open()\<close> exactly when the handle it then has is not open. With a handle that
  is already open the entry performs no call at all and leaves the page unchanged, so
  that \<open>run\<close> goes on with the command ID exchange on the existing handle.
\<close>

theorem connect_only_when_needed:
  "\<exists>evs. trace (snd (connect w)) = trace w @ evs
     \<and> (RequestDevice \<in> set evs \<longleftrightarrow> device w = None)
     \<and> (\<forall>d. device w = Some d \<longrightarrow> (OpenDevice \<in> set evs \<longleftrightarrow> \<not> opened d))
     \<and> (device w = None \<longrightarrow>
          (OpenDevice \<in> set evs \<longleftrightarrow> (\<exists>g gs. granted w = g # gs \<and> \<not> opened g)))
     \<and> (\<forall>d. device w = Some d \<and> opened d \<longrightarrow>
          evs = [] \<and> connect w = (Returned (), w)
          \<and> run prog w =
              andThen handshake (\<lambda>_.
              andThen prog (\<lambda>_. andThen (send ''R'' [0]) (\<lambda>_. device_close))) w)
     \<and> count_list evs RequestDevice \<le> 1 \<and> count_list evs OpenDevice \<le> 1"
proof (cases "device w")
  case None
  show ?thesis
  proof (cases "granted w")
    case Nil
    with None have "trace (snd (connect w)) = trace w @ [RequestDevice]"
      by (simp add: connect_trace)
    with None Nil show ?thesis
      by (intro exI [of _ "[RequestDevice]"]) simp
  next
    case (Cons g gs)
    show ?thesis
    proof (cases "opened g")
      case True
      with None Cons have "trace (snd (connect w)) = trace w @ [RequestDevice]"
        by (simp add: connect_trace)
      with None Cons True show ?thesis
        by (intro exI [of _ "[RequestDevice]"]) simp
    next
      case False
      with None Cons have "trace (snd (connect w)) = trace w @ [RequestDevice, OpenDevice]"
        by (simp add: connect_trace)
      with None Cons False show ?thesis
        by (intro exI [of _ "[RequestDevice, OpenDevice]"]) simp
    qed
  qed
next
  case (Some d)
  show ?thesis
  proof (cases "opened d")
    case True
    with Some have "trace (snd (connect w)) = trace w @ []"
      by (simp add: connect_trace)
    with Some True run_reuse(1) [OF Some True] run_reuse(2) [OF Some True, of prog] show ?thesis
      by (intro exI [of _ "[]"]) simp
  next
    case False
    with Some have "trace (snd (connect w)) = trace w @ [OpenDevice]"
      by (simp add: connect_trace)
    with Some False show ?thesis
      by (intro exI [of _ "[OpenDevice]"]) simp
  qed
qed

theorem connect_only_when_needed_witness:
  "device page_open = Some \<lparr>opened = True, openable = True\<rparr>
   \<and> opened \<lparr>opened = True, openable = True\<rparr>
   \<and> connect page_open = (Returned (), page_open)
   \<and> device page_fresh = None
   \<and> RequestDevice \<in> set (trace (snd (connect page_fresh)))"
proof -
  have h: "device page_open = Some \<lparr>opened = True, openable = True\<rparr>"
    by (simp add: page_open_def)
  have o: "opened \<lparr>opened = True, openable = True\<rparr>" by simp
  from connect_only_when_needed [of page_open task_drive] h o
  have c: "connect page_open = (Returned (), page_open)" by blast
  have n: "device page_fresh = None" by (simp add: page_fresh_def)
  from connect_only_when_needed [of page_fresh task_drive] n
  obtain evs where "trace (snd (connect page_fresh)) = trace page_fresh @ evs"
    "RequestDevice \<in> set evs" by blast
  then have r: "RequestDevice \<in> set (trace (snd (connect page_fresh)))" by simp
  from h o c n r show ?thesis by blast
qed

section \<open>The sensor reads\<close>

text \<open>
  Each sensor read sends its query with no parameters, awaits one report and decodes it.
\<close>

lemma query_eq:
  assumes "device w = Some d" and "reports w = r # rs"
  shows "andThen (send cmd []) (\<lambda>_. andThen recv (\<lambda>data. resolve (f data))) w =
     (Returned (f r),
      w\<lparr>trace := trace w @ [SendReport 0 (send_arr cmd []), AddListener], reports := rs\<rparr>)"
  using assms
  by (simp add: andThen_def send_def recv_def resolve_def emit_def)

lemma u8_get_0: "r \<noteq> [] \<Longrightarrow> u8_get r 0 = Some (uint (r ! 0))"
  by (simp add: u8_get_def js_index_def)

lemma u8_get_beyond: "length r \<le> i \<Longrightarrow> u8_get r i = None"
  by (simp add: u8_get_def js_index_def)

lemma js_band_undefined: "js_band None b = 0"
  by (simp add: js_band_def toInt32_def)

text \<open>
  C6 as stated fails: on an empty report \<open>get_temperature\<close> raises nothing and is
  fulfilled with \<open>NaN\<close>.
\<close>

theorem get_temperature_empty_report_counterexample:
  "get_temperature (page_replies []) =
     (Returned JNaN,
      (page_replies [])\<lparr>trace := [SendReport 0 [84, 0, 0, 0, 0, 0, 0, 0], AddListener],
         reports := []\<rparr>)"
  by code_simp

text \<open>
  C6, amended. No sensor read checks the size of the response, and none raises an error
  for it: with a device handle in place and a report delivered, \<open>get_obstacles\<close>,
  \<open>get_acceleration\<close>, \<open>get_temperature\<close> and \<open>get_light\<close> are each fulfilled with the
  value decoded from the report, whatever its length. A byte that is missing reads as
  \<open>undefined\<close>: the temperature of an empty report is \<open>NaN\<close>, a report of fewer than five
  bytes gives \<open>tap\<close> and \<open>shake\<close> false, one of fewer than three bytes an undefined \<open>z\<close>,
  and the obstacle array has as many elements as the report has bytes, at most two.
\<close>

theorem sensor_reads_any_length:
  assumes "device w = Some d" and "reports w = r # rs"
  shows "fst (get_obstacles w) = Returned (obstacles_of r)
       \<and> fst (get_acceleration w) = Returned (acceleration_of r)
       \<and> fst (get_temperature w) = Returned (temperature_of r)
       \<and> fst (get_light w) = Returned (take 2 r)
       \<and> (r = [] \<longrightarrow> temperature_of r = JNaN)
       \<and> (length r < 5 \<longrightarrow> \<not> tap (acceleration_of r) \<and> \<not> shake (acceleration_of r))
       \<and> (length r < 3 \<longrightarrow> z (acceleration_of r) = JUndefined)
       \<and> length (obstacles_of r) = min 2 (length r)"
proof (intro conjI impI)
  show "fst (get_obstacles w) = Returned (obstacles_of r)"
    by (simp add: get_obstacles_def query_eq [OF assms])
  show "fst (get_acceleration w) = Returned (acceleration_of r)"
    by (simp add: get_acceleration_def query_eq [OF assms])
  show "fst (get_temperature w) = Returned (temperature_of r)"
    by (simp add: get_temperature_def query_eq [OF assms])
  show "fst (get_light w) = Returned (take 2 r)"
    by (simp add: get_light_def query_eq [OF assms] u8_slice_def)
  show "length (obstacles_of r) = min 2 (length r)"
    by (simp add: obstacles_of_def u8_map_def u8_slice_def min.commute)
next
  assume "r = []"
  then show "temperature_of r = JNaN"
    by (simp add: temperature_of_def u8_get_beyond)
next
  assume "length r < 5"
  then have "u8_get r 4 = None" by (simp add: u8_get_beyond)
  then show "\<not> tap (acceleration_of r)" and "\<not> shake (acceleration_of r)"
    by (simp_all add: acceleration_of_def Let_def js_band_undefined)
next
  assume "length r < 3"
  then show "z (acceleration_of r) = JUndefined"
    by (simp add: acceleration_of_def Let_def u8_num_def u8_get_def js_index_def
        u8_map_def u8_slice_def)
qed

theorem sensor_reads_any_length_witness:
  "device (page_replies [7, 9]) = Some \<lparr>opened = True, openable = True\<rparr>
   \<and> reports (page_replies [7, 9]) = [[7, 9]]
   \<and> fst (get_light (page_replies [7, 9])) = Returned [7, 9]
   \<and> fst (get_acceleration (page_replies [7, 9])) =
       Returned \<lparr>x = JNum 0, y = JNum 0, z = JUndefined, tap = False, shake = False\<rparr>
   \<and> reports (page_replies []) = [[]]
   \<and> fst (get_temperature (page_replies [])) = Returned JNaN"
proof -
  have e1: "device (page_replies []) = Some \<lparr>opened = True, openable = True\<rparr>"
    by (simp add: page_replies_def)
  have e2: "reports (page_replies []) = [[]]"
    by (simp add: page_replies_def)
  from sensor_reads_any_length [OF e1 e2]
  have n: "fst (get_temperature (page_replies [])) = Returned JNaN"
    by simp
  have h1: "device (page_replies [7, 9]) = Some \<lparr>opened = True, openable = True\<rparr>"
    by (simp add: page_replies_def)
  have h2: "reports (page_replies [7, 9]) = [[7, 9]]"
    by (simp add: page_replies_def)
  note t = sensor_reads_any_length [OF h1 h2]
  have a: "acceleration_of [7, 9] =
      \<lparr>x = JNum 0, y = JNum 0, z = JUndefined, tap = False, shake = False\<rparr>"
    by code_simp
  from t have l: "fst (get_light (page_replies [7, 9])) = Returned [7, 9]" by simp
  from t a have g: "fst (get_acceleration (page_replies [7, 9])) =
       Returned \<lparr>x = JNum 0, y = JNum 0, z = JUndefined, tap = False, shake = False\<rparr>"
    by simp
  from h1 h2 l g e2 n show ?thesis by blast
qed

text \<open>
  C7. The code at the response \<open>[40, 0, 0, 0, 0, 0, 0, 0]\<close>: \<open>convAccel\<close> maps the raw
  byte 40 to -1.2, as the claim says, but \<open>map\<close> stores that result into a \<open>Uint8Array\<close>,
  where it is truncated to -1 and wrapped: the \<open>x\<close> that \<open>get_acceleration\<close> returns is
  255.
\<close>

theorem get_acceleration_raw_40:
  "fst (get_acceleration (page_replies [40, 0, 0, 0, 0, 0, 0, 0])) =
     Returned \<lparr>x = JNum 255, y = JNum 0, z = JNum 0, tap = False, shake = False\<rparr>
   \<and> convAccel 40 = - 1.2"
  by code_simp

text \<open>
  C9. The code at the response \<open>[1, 0, 0, 0, 0, 0, 0, 0]\<close>: the callback yields \<open>true\<close>
  and \<open>false\<close>, but \<open>map\<close> stores them into a \<open>Uint8Array\<close>, so that \<open>get_obstacles\<close>
  is fulfilled with the numbers 1 and 0, not with booleans.
\<close>

theorem get_obstacles_left_only:
  "fst (get_obstacles (page_replies [1, 0, 0, 0, 0, 0, 0, 0])) = Returned [1, 0]
   \<and> toUint8_val (JBool True) = 1 \<and> toUint8_val (JBool False) = 0"
  by code_simp

text \<open>
  C8. With a device handle in place and a non-empty report delivered, \<open>get_temperature\<close>
  is fulfilled with \<open>(byte[0] - 127) / 2.4 + 25\<close>; the raw byte 127 gives exactly 25, and
  the raw byte 0 gives \<open>25 - 127 / 2.4\<close>. The arithmetic is that of exact rationals.
\<close>

theorem get_temperature_formula:
  assumes "device w = Some d" and "reports w = r # rs" and "r \<noteq> []"
  shows "fst (get_temperature w) = Returned (JNum ((of_int (uint (r ! 0)) - 127) / 2.4 + 25))
       \<and> (r ! 0 = 127 \<longrightarrow> fst (get_temperature w) = Returned (JNum 25))
       \<and> (r ! 0 = 0 \<longrightarrow> fst (get_temperature w) = Returned (JNum (25 - 127 / 2.4)))"
proof -
  have g: "fst (get_temperature w) = Returned (temperature_of r)"
    by (simp add: get_temperature_def query_eq [OF assms(1,2)])
  have t: "temperature_of r = JNum ((of_int (uint (r ! 0)) - 127) / 2.4 + 25)"
    using assms(3) by (simp add: temperature_of_def u8_get_0)
  show ?thesis
    by (simp add: g t)
qed

theorem get_temperature_formula_witness:
  "device (page_replies [127, 0, 0, 0, 0, 0, 0, 0]) = Some \<lparr>opened = True, openable = True\<rparr>
   \<and> reports (page_replies [127, 0, 0, 0, 0, 0, 0, 0]) = [[127, 0, 0, 0, 0, 0, 0, 0]]
   \<and> [127, 0, 0, 0, 0, 0, 0, 0 :: byte] \<noteq> []
   \<and> fst (get_temperature (page_replies [127, 0, 0, 0, 0, 0, 0, 0])) = Returned (JNum 25)
   \<and> fst (get_temperature (page_replies [0, 127])) = Returned (JNum (- 335 / 12))"
proof -
  have k1: "device (page_replies [0, 127]) = Some \<lparr>opened = True, openable = True\<rparr>"
    by (simp add: page_replies_def)
  have k2: "reports (page_replies [0, 127]) = [[0, 127]]"
    by (simp add: page_replies_def)
  have k3: "[0, 127 :: byte] \<noteq> []" by simp
  from get_temperature_formula [OF k1 k2 k3]
  have z: "fst (get_temperature (page_replies [0, 127])) = Returned (JNum (- 335 / 12))"
    by simp
  have h1: "device (page_replies [127, 0, 0, 0, 0, 0, 0, 0]) =
      Some \<lparr>opened = True, openable = True\<rparr>"
    by (simp add: page_replies_def)
  have h2: "reports (page_replies [127, 0, 0, 0, 0, 0, 0, 0]) = [[127, 0, 0, 0, 0, 0, 0, 0]]"
    by (simp add: page_replies_def)
  have h3: "[127, 0, 0, 0, 0, 0, 0, 0 :: byte] \<noteq> []" by simp
  from get_temperature_formula [OF h1 h2 h3]
  have "fst (get_temperature (page_replies [127, 0, 0, 0, 0, 0, 0, 0])) = Returned (JNum 25)"
    by simp
  with h1 h2 h3 z show ?thesis by blast
qed

end
